theory Spec2Isabelle
  imports Main
begin

section \<open>A frameless PyQt5 main window with a custom title bar\<close>

text \<open>
  The program (\<^verbatim>\<open>custom-pyqt5-titlebar.py\<close>) has two classes. \<^verbatim>\<open>CustomTitleBar\<close> is
  the draggable strip with the window-control buttons and the menu; \<^verbatim>\<open>MainWindow\<close> is the
  frameless top-level window that resizes itself when an edge or corner is dragged.

  The embedding follows the source method by method. Python's unbounded integers are
  \<^typ>\<open>int\<close>; \<^verbatim>\<open>Optional[...]\<close> is \<^typ>\<open>'a option\<close>; a method that mutates \<^verbatim>\<open>self\<close>
  takes the object and returns the updated one; a Python \<^verbatim>\<open>TypeError\<close> is the value
  \<open>Inl TypeError\<close>. Screen coordinates stay far inside the range of Qt's 32-bit
  \<^verbatim>\<open>int\<close>, so no wrap-around is written out.
\<close>

subsection \<open>Qt value types: points, rectangles, events\<close>

text \<open>\<^verbatim>\<open>QPoint\<close>: the fields are what \<^verbatim>\<open>x()\<close> and \<^verbatim>\<open>y()\<close> return.\<close>

record QPoint =
  xp :: int
  yp :: int

definition QPoint_sub :: "QPoint \<Rightarrow> QPoint \<Rightarrow> QPoint" where
  "QPoint_sub a b = \<lparr>xp = xp a - xp b, yp = yp a - yp b\<rparr>"

text \<open>
  \<^verbatim>\<open>QRect\<close> keeps its four edges, as Qt's class does: the width is
  \<open>x2 - x1 + 1\<close>, \<^verbatim>\<open>setWidth\<close> and \<^verbatim>\<open>setHeight\<close> move the right and bottom edge,
  \<^verbatim>\<open>setLeft\<close> and \<^verbatim>\<open>setTop\<close> move the left and top edge and leave the opposite edge
  where it is.
\<close>

record QRect =
  x1 :: int
  y1 :: int
  x2 :: int
  y2 :: int

definition QRect_xywh :: "int \<Rightarrow> int \<Rightarrow> int \<Rightarrow> int \<Rightarrow> QRect" where
  "QRect_xywh x y w h = \<lparr>x1 = x, y1 = y, x2 = x + w - 1, y2 = y + h - 1\<rparr>"

definition rleft :: "QRect \<Rightarrow> int" where
  "rleft r = x1 r"

definition rtop :: "QRect \<Rightarrow> int" where
  "rtop r = y1 r"

definition rright :: "QRect \<Rightarrow> int" where
  "rright r = x2 r"

definition rbottom :: "QRect \<Rightarrow> int" where
  "rbottom r = y2 r"

definition rwidth :: "QRect \<Rightarrow> int" where
  "rwidth r = x2 r - x1 r + 1"

definition rheight :: "QRect \<Rightarrow> int" where
  "rheight r = y2 r - y1 r + 1"

definition setLeft :: "QRect \<Rightarrow> int \<Rightarrow> QRect" where
  "setLeft r l = r\<lparr>x1 := l\<rparr>"

definition setTop :: "QRect \<Rightarrow> int \<Rightarrow> QRect" where
  "setTop r t = r\<lparr>y1 := t\<rparr>"

definition setWidth :: "QRect \<Rightarrow> int \<Rightarrow> QRect" where
  "setWidth r w = r\<lparr>x2 := x1 r + w - 1\<rparr>"

definition setHeight :: "QRect \<Rightarrow> int \<Rightarrow> QRect" where
  "setHeight r h = r\<lparr>y2 := y1 r + h - 1\<rparr>"

definition moveTo :: "QRect \<Rightarrow> int \<Rightarrow> int \<Rightarrow> QRect" where
  "moveTo r x y = QRect_xywh x y (rwidth r) (rheight r)"

datatype MouseButton = NoButton | LeftButton | RightButton | MiddleButton

datatype CursorShape =
  ArrowCursor | SizeHorCursor | SizeVerCursor | SizeFDiagCursor | SizeBDiagCursor

record QMouseEvent =
  button :: MouseButton
  pos :: QPoint
  globalPos :: QPoint

datatype py_error = TypeError

subsection \<open>The platform window\<close>

text \<open>
  The part of a \<^verbatim>\<open>QMainWindow\<close> the program reads and writes. The three state flags are
  the bits of Qt's window state; \<open>calls\<close> is the trace of the calls the program has
  issued on the window, oldest first. Qt's \<^verbatim>\<open>showMaximized\<close> clears the minimized and
  full-screen bits and sets the maximized one, \<^verbatim>\<open>showFullScreen\<close> clears the minimized
  and maximized bits and sets the full-screen one, \<^verbatim>\<open>showNormal\<close> clears all three, and
  \<^verbatim>\<open>showMinimized\<close> sets the minimized bit. The geometry that the platform gives a
  maximized or full-screen window, and the size constraint it applies on its own to a
  rectangle passed to \<^verbatim>\<open>setGeometry\<close>, are outside the model: \<open>geometry\<close> is the
  rectangle the program asked for.
\<close>

datatype qcall =
  ShowNormal | ShowMaximized | ShowFullScreen | ShowMinimized | Close
  | Move int int | SetGeometry QRect | SetCursor CursorShape

record QWidget =
  geometry :: QRect
  minimumWidth :: int
  minimumHeight :: int
  minimized :: bool
  maximized :: bool
  fullScreen :: bool
  visible :: bool
  cursor :: CursorShape
  calls :: "qcall list"

definition isMaximized :: "QWidget \<Rightarrow> bool" where
  "isMaximized w = maximized w"

definition isFullScreen :: "QWidget \<Rightarrow> bool" where
  "isFullScreen w = fullScreen w"

definition showNormal :: "QWidget \<Rightarrow> QWidget" where
  "showNormal w =
     w\<lparr>minimized := False, maximized := False, fullScreen := False, visible := True,
       calls := calls w @ [ShowNormal]\<rparr>"

definition showMaximized :: "QWidget \<Rightarrow> QWidget" where
  "showMaximized w =
     w\<lparr>minimized := False, fullScreen := False, maximized := True, visible := True,
       calls := calls w @ [ShowMaximized]\<rparr>"

definition showFullScreen :: "QWidget \<Rightarrow> QWidget" where
  "showFullScreen w =
     w\<lparr>minimized := False, maximized := False, fullScreen := True, visible := True,
       calls := calls w @ [ShowFullScreen]\<rparr>"

definition showMinimized :: "QWidget \<Rightarrow> QWidget" where
  "showMinimized w =
     w\<lparr>minimized := True, visible := True, calls := calls w @ [ShowMinimized]\<rparr>"

definition close :: "QWidget \<Rightarrow> QWidget" where
  "close w = w\<lparr>visible := False, calls := calls w @ [Close]\<rparr>"

definition wx :: "QWidget \<Rightarrow> int" where
  "wx w = rleft (geometry w)"

definition wy :: "QWidget \<Rightarrow> int" where
  "wy w = rtop (geometry w)"

definition move :: "QWidget \<Rightarrow> int \<Rightarrow> int \<Rightarrow> QWidget" where
  "move w x y = w\<lparr>geometry := moveTo (geometry w) x y, calls := calls w @ [Move x y]\<rparr>"

definition setGeometry :: "QWidget \<Rightarrow> QRect \<Rightarrow> QWidget" where
  "setGeometry w r = w\<lparr>geometry := r, calls := calls w @ [SetGeometry r]\<rparr>"

definition setCursor :: "QWidget \<Rightarrow> CursorShape \<Rightarrow> QWidget" where
  "setCursor w c = w\<lparr>cursor := c, calls := calls w @ [SetCursor c]\<rparr>"

definition rect :: "QWidget \<Rightarrow> QRect" where
  "rect w = QRect_xywh 0 0 (rwidth (geometry w)) (rheight (geometry w))"

subsection \<open>The two objects\<close>

text \<open>
  A button is represented by the path of the icon it shows. The paths given at
  construction lie in the directory \<^verbatim>\<open>Images\<close> (the path separator is the backslash,
  character \<open>0x5C\<close>); the paths the handlers set later have no directory. The labels,
  the style sheets, the layout and the menu entries hold nothing that a handler reads
  and are left out.
\<close>

definition Images :: "string \<Rightarrow> string" where
  "Images p = ''Images'' @ [CHR 0x5C] @ p"

record CustomTitleBar =
  start :: "QPoint option"
  closeButton :: string
  maximizeButton :: string
  minimizeButton :: string
  fullScreenButton :: string

text \<open>
  \<^verbatim>\<open>MainWindow\<close>: the platform window it inherits, its own four attributes, and the
  title bar it owns (whose \<^verbatim>\<open>parent()\<close> is this window, so the title bar's methods are
  functions on the whole record).
\<close>

record MainWindow =
  widget :: QWidget
  drag_pos :: "QPoint option"
  resizing :: bool
  edge_margin :: int
  resize_direction :: "string option"
  customTitleBar :: CustomTitleBar

definition CustomTitleBar_init :: CustomTitleBar where
  "CustomTitleBar_init =
     \<lparr>start = None,
      closeButton = Images ''close-button-icon-white.png'',
      maximizeButton = Images ''maximize-button-icon-white.png'',
      minimizeButton = Images ''minimize-button-icon-white.png'',
      fullScreenButton = Images ''fullscreen-button-icon-white.png''\<rparr>"

text \<open>
  \<^verbatim>\<open>MainWindow.__init__\<close> followed by \<^verbatim>\<open>show()\<close>: \<^verbatim>\<open>setMinimumSize(800, 600)\<close> grows
  the new window to 800 by 600; the position is the platform's choice, here the origin.
\<close>

definition MainWindow_init :: MainWindow where
  "MainWindow_init =
     \<lparr>widget =
        \<lparr>geometry = QRect_xywh 0 0 800 600, minimumWidth = 800, minimumHeight = 600,
         minimized = False, maximized = False, fullScreen = False, visible = True,
         cursor = ArrowCursor, calls = []\<rparr>,
      drag_pos = None,
      resizing = False,
      edge_margin = 8,
      resize_direction = None,
      customTitleBar = CustomTitleBar_init\<rparr>"

subsection \<open>Python's string and truth tests\<close>

text \<open>\<^verbatim>\<open>a in b\<close> on two strings: \<open>a\<close> occurs in \<open>b\<close> as a contiguous substring.\<close>

fun startswith :: "string \<Rightarrow> string \<Rightarrow> bool" where
  "startswith [] s = True"
| "startswith (a # as) [] = False"
| "startswith (a # as) (b # bs) = (a = b \<and> startswith as bs)"

fun str_in :: "string \<Rightarrow> string \<Rightarrow> bool" where
  "str_in n [] = (n = [])"
| "str_in n (c # cs) = (startswith n (c # cs) \<or> str_in n cs)"

text \<open>The truth value of an \<^verbatim>\<open>Optional[str]\<close>: \<^verbatim>\<open>None\<close> and the empty string are false.\<close>

definition truthy :: "string option \<Rightarrow> bool" where
  "truthy d = (case d of None \<Rightarrow> False | Some s \<Rightarrow> s \<noteq> [])"

subsection \<open>\<^verbatim>\<open>MainWindow\<close>: hit-testing, resizing, cursor feedback\<close>

definition near_left :: "MainWindow \<Rightarrow> QPoint \<Rightarrow> bool" where
  "near_left self p = (xp p \<le> edge_margin self)"

definition near_right :: "MainWindow \<Rightarrow> QPoint \<Rightarrow> bool" where
  "near_right self p = (xp p \<ge> rwidth (rect (widget self)) - edge_margin self)"

definition near_top :: "MainWindow \<Rightarrow> QPoint \<Rightarrow> bool" where
  "near_top self p = (yp p \<le> edge_margin self)"

definition near_bottom :: "MainWindow \<Rightarrow> QPoint \<Rightarrow> bool" where
  "near_bottom self p = (yp p \<ge> rheight (rect (widget self)) - edge_margin self)"

definition get_resize_direction :: "MainWindow \<Rightarrow> QPoint \<Rightarrow> string option" where
  "get_resize_direction self p =
     (if near_left self p \<and> near_top self p then Some ''top-left''
      else if near_left self p \<and> near_bottom self p then Some ''bottom-left''
      else if near_right self p \<and> near_top self p then Some ''top-right''
      else if near_right self p \<and> near_bottom self p then Some ''bottom-right''
      else if near_left self p then Some ''left''
      else if near_right self p then Some ''right''
      else if near_top self p then Some ''top''
      else if near_bottom self p then Some ''bottom''
      else None)"

text \<open>
  Lines 361 to 368 of \<^verbatim>\<open>_perform_resize\<close>: the rectangle that is handed to
  \<^verbatim>\<open>setGeometry\<close>, from the direction \<open>d\<close>, the mouse delta, the two minimum sizes
  and the current geometry.
\<close>

definition resize_rect :: "string \<Rightarrow> QPoint \<Rightarrow> int \<Rightarrow> int \<Rightarrow> QRect \<Rightarrow> QRect" where
  "resize_rect d delta minw minh r0 =
     (let r = (if str_in ''right'' d then setWidth r0 (max (rwidth r0 + xp delta) minw) else r0);
          r = (if str_in ''left'' d then setLeft r (rleft r + xp delta) else r);
          r = (if str_in ''bottom'' d then setHeight r (max (rheight r + yp delta) minh) else r);
          r = (if str_in ''top'' d then setTop r (rtop r + yp delta) else r)
      in r)"

text \<open>
  \<^verbatim>\<open>_perform_resize\<close>. Subtracting \<^verbatim>\<open>None\<close> from a point and testing
  \<^verbatim>\<open>"right" in None\<close> both raise \<^verbatim>\<open>TypeError\<close>.
\<close>

definition perform_resize :: "MainWindow \<Rightarrow> QPoint \<Rightarrow> py_error + MainWindow" where
  "perform_resize self global_pos =
     (case drag_pos self of
        None \<Rightarrow> Inl TypeError
      | Some dp \<Rightarrow>
          (case resize_direction self of
             None \<Rightarrow> Inl TypeError
           | Some d \<Rightarrow>
               (let delta = QPoint_sub global_pos dp;
                    r = resize_rect d delta (minimumWidth (widget self))
                          (minimumHeight (widget self)) (geometry (widget self))
                in Inr (self\<lparr>widget := setGeometry (widget self) r,
                              drag_pos := Some global_pos\<rparr>))))"

definition update_cursor :: "MainWindow \<Rightarrow> QPoint \<Rightarrow> MainWindow" where
  "update_cursor self p =
     (let direction = get_resize_direction self p in
      if direction \<in> set [Some ''left'', Some ''right'']
        then self\<lparr>widget := setCursor (widget self) SizeHorCursor\<rparr>
      else if direction \<in> set [Some ''top'', Some ''bottom'']
        then self\<lparr>widget := setCursor (widget self) SizeVerCursor\<rparr>
      else if direction \<in> set [Some ''top-left'', Some ''bottom-right'']
        then self\<lparr>widget := setCursor (widget self) SizeFDiagCursor\<rparr>
      else if direction \<in> set [Some ''top-right'', Some ''bottom-left'']
        then self\<lparr>widget := setCursor (widget self) SizeBDiagCursor\<rparr>
      else self\<lparr>widget := setCursor (widget self) ArrowCursor\<rparr>)"

definition MainWindow_mousePressEvent :: "MainWindow \<Rightarrow> QMouseEvent \<Rightarrow> MainWindow" where
  "MainWindow_mousePressEvent self event =
     (if button event = LeftButton then
        (let self = self\<lparr>drag_pos := Some (globalPos event)\<rparr>;
             self = self\<lparr>resize_direction := get_resize_direction self (pos event)\<rparr>
         in if truthy (resize_direction self) then self\<lparr>resizing := True\<rparr> else self)
      else self)"

definition MainWindow_mouseMoveEvent ::
  "MainWindow \<Rightarrow> QMouseEvent \<Rightarrow> py_error + MainWindow" where
  "MainWindow_mouseMoveEvent self event =
     (if resizing self \<and> truthy (resize_direction self) then
        (case perform_resize self (globalPos event) of
           Inl e \<Rightarrow> Inl e
         | Inr self' \<Rightarrow> Inr (update_cursor self' (pos event)))
      else Inr self)"

definition MainWindow_mouseReleaseEvent :: "MainWindow \<Rightarrow> QMouseEvent \<Rightarrow> MainWindow" where
  "MainWindow_mouseReleaseEvent self event =
     self\<lparr>resizing := False, resize_direction := None,
          widget := setCursor (widget self) ArrowCursor\<rparr>"

subsection \<open>\<^verbatim>\<open>CustomTitleBar\<close>: dragging and the window-control buttons\<close>

definition CustomTitleBar_mousePressEvent :: "MainWindow \<Rightarrow> QMouseEvent \<Rightarrow> MainWindow" where
  "CustomTitleBar_mousePressEvent self event =
     self\<lparr>customTitleBar := (customTitleBar self)\<lparr>start := Some (globalPos event)\<rparr>\<rparr>"

text \<open>
  \<^verbatim>\<open>CustomTitleBar.mouseMoveEvent\<close>. The restore comes first; then
  \<^verbatim>\<open>event.globalPos() - self.start\<close> raises \<^verbatim>\<open>TypeError\<close> when \<^verbatim>\<open>self.start\<close> is
  \<^verbatim>\<open>None\<close>.
\<close>

definition CustomTitleBar_mouseMoveEvent ::
  "MainWindow \<Rightarrow> QMouseEvent \<Rightarrow> py_error + MainWindow" where
  "CustomTitleBar_mouseMoveEvent self event =
     (let self =
        (if isMaximized (widget self) \<or> isFullScreen (widget self) then
           self\<lparr>widget := showNormal (widget self),
                customTitleBar := (customTitleBar self)
                  \<lparr>maximizeButton := ''maximize-button-icon-white.png'',
                   fullScreenButton := ''fullscreen-button-icon-white.png''\<rparr>\<rparr>
         else self)
      in case start (customTitleBar self) of
           None \<Rightarrow> Inl TypeError
         | Some st \<Rightarrow>
             (let delta = QPoint_sub (globalPos event) st in
              Inr (self\<lparr>widget := move (widget self) (wx (widget self) + xp delta)
                                     (wy (widget self) + yp delta),
                        customTitleBar := (customTitleBar self)
                          \<lparr>start := Some (globalPos event)\<rparr>\<rparr>)))"

definition closeParent :: "MainWindow \<Rightarrow> MainWindow" where
  "closeParent self = self\<lparr>widget := close (widget self)\<rparr>"

definition showParentMinimized :: "MainWindow \<Rightarrow> MainWindow" where
  "showParentMinimized self = self\<lparr>widget := showMinimized (widget self)\<rparr>"

definition showParentMaximized :: "MainWindow \<Rightarrow> MainWindow" where
  "showParentMaximized self =
     (if isMaximized (widget self) then
        self\<lparr>customTitleBar := (customTitleBar self)
               \<lparr>maximizeButton := ''maximize-button-icon-white.png'',
                fullScreenButton := ''fullscreen-button-icon-white.png''\<rparr>,
             widget := showNormal (widget self)\<rparr>
      else
        self\<lparr>customTitleBar := (customTitleBar self)
               \<lparr>maximizeButton := ''normal-button-icon-white.png''\<rparr>,
             widget := showMaximized (widget self)\<rparr>)"

definition showParentFullScreen :: "MainWindow \<Rightarrow> MainWindow" where
  "showParentFullScreen self =
     (if isFullScreen (widget self) then
        self\<lparr>customTitleBar := (customTitleBar self)
               \<lparr>fullScreenButton := ''fullscreen-button-icon-white.png'',
                maximizeButton := ''maximize-button-icon-white.png''\<rparr>,
             widget := showNormal (widget self)\<rparr>
      else
        self\<lparr>customTitleBar := (customTitleBar self)
               \<lparr>fullScreenButton := ''end-fullscreen-button-icon-white.png''\<rparr>,
             widget := showFullScreen (widget self)\<rparr>)"

text \<open>
  The active variant of the maximize icon is the restore icon, that of the full-screen
  icon the end-full-screen icon; every other path either button is given is an inactive
  variant.
\<close>

definition maximize_icon_active :: "MainWindow \<Rightarrow> bool" where
  "maximize_icon_active self =
     (maximizeButton (customTitleBar self) = ''normal-button-icon-white.png'')"

definition fullscreen_icon_active :: "MainWindow \<Rightarrow> bool" where
  "fullscreen_icon_active self =
     (fullScreenButton (customTitleBar self) = ''end-fullscreen-button-icon-white.png'')"

subsection \<open>Signals and slots\<close>

text \<open>
  \<^verbatim>\<open>_setup_buttons\<close> connects each button's \<^verbatim>\<open>clicked\<close> signal, \<^verbatim>\<open>_setup_menubar\<close>
  connects the quit action's \<^verbatim>\<open>triggered\<close> signal; the other two actions are left
  unconnected. Emitting a signal calls every slot connected to it, in connection order.
\<close>

datatype signal =
  closeButton_clicked | maximizeButton_clicked | minimizeButton_clicked
  | fullScreenButton_clicked | action_new_triggered | action_quit_triggered
  | action_about_triggered

definition setup_buttons :: "(signal \<times> (MainWindow \<Rightarrow> MainWindow)) list" where
  "setup_buttons =
     [(closeButton_clicked, closeParent),
      (maximizeButton_clicked, showParentMaximized),
      (minimizeButton_clicked, showParentMinimized),
      (fullScreenButton_clicked, showParentFullScreen)]"

definition setup_menubar :: "(signal \<times> (MainWindow \<Rightarrow> MainWindow)) list" where
  "setup_menubar = [(action_quit_triggered, closeParent)]"

definition connections :: "(signal \<times> (MainWindow \<Rightarrow> MainWindow)) list" where
  "connections = setup_buttons @ setup_menubar"

definition slots :: "signal \<Rightarrow> (MainWindow \<Rightarrow> MainWindow) list" where
  "slots sg = map snd (filter (\<lambda>c. fst c = sg) connections)"

definition emit :: "signal \<Rightarrow> MainWindow \<Rightarrow> MainWindow" where
  "emit sg self = fold (\<lambda>slot s. slot s) (slots sg) self"

subsection \<open>Event delivery\<close>

text \<open>
  What the event loop can hand to the program: a mouse event on the title bar, a mouse
  event on the window frame, or a signal. A run stops at the first error.
\<close>

datatype event =
  TitleBarPress QMouseEvent | TitleBarMove QMouseEvent
  | WindowPress QMouseEvent | WindowMove QMouseEvent | WindowRelease QMouseEvent
  | Emit signal

fun deliver :: "event \<Rightarrow> MainWindow \<Rightarrow> py_error + MainWindow" where
  "deliver (TitleBarPress e) self = Inr (CustomTitleBar_mousePressEvent self e)"
| "deliver (TitleBarMove e) self = CustomTitleBar_mouseMoveEvent self e"
| "deliver (WindowPress e) self = Inr (MainWindow_mousePressEvent self e)"
| "deliver (WindowMove e) self = MainWindow_mouseMoveEvent self e"
| "deliver (WindowRelease e) self = Inr (MainWindow_mouseReleaseEvent self e)"
| "deliver (Emit sg) self = Inr (emit sg self)"

fun run :: "event list \<Rightarrow> MainWindow \<Rightarrow> py_error + MainWindow" where
  "run [] self = Inr self"
| "run (e # es) self =
     (case deliver e self of Inl err \<Rightarrow> Inl err | Inr self' \<Rightarrow> run es self')"

subsection \<open>Notions used in the statements\<close>

text \<open>The eight strings \<^verbatim>\<open>_get_resize_direction\<close> can return, in the order of its branches.\<close>

definition directions :: "string list" where
  "directions = [''top-left'', ''bottom-left'', ''top-right'', ''bottom-right'',
                 ''left'', ''right'', ''top'', ''bottom'']"

text \<open>A run of \<^verbatim>\<open>_perform_resize\<close> steps, one per cursor position; it stops at the first error.\<close>

fun perform_resizes :: "MainWindow \<Rightarrow> QPoint list \<Rightarrow> py_error + MainWindow" where
  "perform_resizes self [] = Inr self"
| "perform_resizes self (g # gs) =
     (case perform_resize self g of Inl e \<Rightarrow> Inl e | Inr self' \<Rightarrow> perform_resizes self' gs)"

text \<open>
  The moves a title-bar drag is expected to issue, written from the description of the
  drag: each event moves the window by the event's global position minus the anchor, and
  the event's global position becomes the anchor.
\<close>

fun drag_moves :: "QPoint \<Rightarrow> int \<Rightarrow> int \<Rightarrow> QMouseEvent list \<Rightarrow> qcall list" where
  "drag_moves anchor x y [] = []"
| "drag_moves anchor x y (e # es) =
     (let x' = x + (xp (globalPos e) - xp anchor);
          y' = y + (yp (globalPos e) - yp anchor)
      in Move x' y' # drag_moves (globalPos e) x' y' es)"


text \<open>Concrete events and states for the examples.\<close>

definition mouse :: "MouseButton \<Rightarrow> int \<Rightarrow> int \<Rightarrow> int \<Rightarrow> int \<Rightarrow> QMouseEvent" where
  "mouse b lx ly gx gy = \<lparr>button = b, pos = \<lparr>xp = lx, yp = ly\<rparr>, globalPos = \<lparr>xp = gx, yp = gy\<rparr>\<rparr>"

definition left_drag :: MainWindow where
  "left_drag = MainWindow_mousePressEvent MainWindow_init (mouse LeftButton 0 300 0 300)"

definition top_drag :: MainWindow where
  "top_drag = MainWindow_mousePressEvent MainWindow_init (mouse LeftButton 400 0 400 0)"

definition corner_drag :: MainWindow where
  "corner_drag = MainWindow_mousePressEvent MainWindow_init (mouse LeftButton 799 599 799 599)"

definition maximized_window :: MainWindow where
  "maximized_window = showParentMaximized MainWindow_init"

section \<open>Properties\<close>

subsection \<open>Rectangles and the eight directions\<close>

lemma rwidth_xywh [simp]: "rwidth (QRect_xywh x y w h) = w"
  by (simp add: rwidth_def QRect_xywh_def)

lemma rheight_xywh [simp]: "rheight (QRect_xywh x y w h) = h"
  by (simp add: rheight_def QRect_xywh_def)

lemma rwidth_rect [simp]: "rwidth (rect w) = rwidth (geometry w)"
  by (simp add: rect_def)

lemma rheight_rect [simp]: "rheight (rect w) = rheight (geometry w)"
  by (simp add: rect_def)

lemma contains_right:
  "d \<in> set directions \<Longrightarrow> str_in ''right'' d \<Longrightarrow> \<not> str_in ''left'' d"
  by (auto simp add: directions_def)

lemma contains_bottom:
  "d \<in> set directions \<Longrightarrow> str_in ''bottom'' d \<Longrightarrow> \<not> str_in ''top'' d"
  by (auto simp add: directions_def)

lemma contains_left:
  "d \<in> set directions \<Longrightarrow> str_in ''left'' d \<Longrightarrow> \<not> str_in ''right'' d"
  by (auto simp add: directions_def)

lemma contains_top:
  "d \<in> set directions \<Longrightarrow> str_in ''top'' d \<Longrightarrow> \<not> str_in ''bottom'' d"
  by (auto simp add: directions_def)

lemma init_geometry:
  "rwidth (geometry (widget MainWindow_init)) = 800"
  "rheight (geometry (widget MainWindow_init)) = 600"
  "rleft (geometry (widget MainWindow_init)) = 0"
  "rtop (geometry (widget MainWindow_init)) = 0"
  "rright (geometry (widget MainWindow_init)) = 799"
  "rbottom (geometry (widget MainWindow_init)) = 599"
  "minimumWidth (widget MainWindow_init) = 800"
  "minimumHeight (widget MainWindow_init) = 600"
  "edge_margin MainWindow_init = 8"
  by (simp_all add: MainWindow_init_def QRect_xywh_def rleft_def rtop_def rright_def rbottom_def
      rwidth_def rheight_def)

subsection \<open>Hit-testing\<close>

lemma left_right_exclusive:
  "2 * edge_margin self < rwidth (rect (widget self)) \<Longrightarrow>
   \<not> (near_left self p \<and> near_right self p)"
  by (simp add: near_left_def near_right_def)

lemma top_bottom_exclusive:
  "2 * edge_margin self < rheight (rect (widget self)) \<Longrightarrow>
   \<not> (near_top self p \<and> near_bottom self p)"
  by (simp add: near_top_def near_bottom_def)

lemma margins_of_program_window:
  "edge_margin self = 8 \<Longrightarrow> 800 \<le> rwidth (rect (widget self)) \<Longrightarrow>
   600 \<le> rheight (rect (widget self)) \<Longrightarrow>
   2 * edge_margin self < rwidth (rect (widget self))
   \<and> 2 * edge_margin self < rheight (rect (widget self))"
  by simp

text \<open>
  Claim C1. For every cursor position \<open>p\<close>, \<^verbatim>\<open>_get_resize_direction\<close> returns
  \<^verbatim>\<open>None\<close> or one of the eight direction strings. It returns a corner direction exactly
  when a horizontal and a vertical proximity condition both hold, never a single edge in
  that case; it returns \<^verbatim>\<open>"top-left"\<close> exactly when \<open>p\<close> is near the left and near the
  top edge; a corner it returns always has both of its conditions; and it returns
  \<^verbatim>\<open>None\<close> exactly when no proximity condition holds. On a window whose width and
  height exceed twice the margin, which the margin 8 and the minimum size 800 by 600 make
  every window of this program (lemma \<open>margins_of_program_window\<close>), it returns each
  of the four corner directions exactly when both of that corner's conditions hold. On
  the 800 by 600 window with margin 8, the position (4, 4) is classified \<^verbatim>\<open>"top-left"\<close>.
\<close>

theorem get_resize_direction_classifies:
  "get_resize_direction self p \<in> set (None # map Some directions)
   \<and> (get_resize_direction self p
          \<in> set (map Some [''top-left'', ''bottom-left'', ''top-right'', ''bottom-right''])
        \<longleftrightarrow> (near_left self p \<or> near_right self p) \<and> (near_top self p \<or> near_bottom self p))
   \<and> (get_resize_direction self p = Some ''top-left'' \<longleftrightarrow> near_left self p \<and> near_top self p)
   \<and> (get_resize_direction self p = Some ''bottom-left'' \<longrightarrow>
        near_left self p \<and> near_bottom self p)
   \<and> (get_resize_direction self p = Some ''top-right'' \<longrightarrow>
        near_right self p \<and> near_top self p)
   \<and> (get_resize_direction self p = Some ''bottom-right'' \<longrightarrow>
        near_right self p \<and> near_bottom self p)
   \<and> (get_resize_direction self p = None \<longleftrightarrow>
        \<not> near_left self p \<and> \<not> near_right self p \<and> \<not> near_top self p \<and> \<not> near_bottom self p)
   \<and> (2 * edge_margin self < rwidth (rect (widget self))
        \<and> 2 * edge_margin self < rheight (rect (widget self)) \<longrightarrow>
        (get_resize_direction self p = Some ''bottom-left'' \<longleftrightarrow>
           near_left self p \<and> near_bottom self p)
        \<and> (get_resize_direction self p = Some ''top-right'' \<longleftrightarrow>
             near_right self p \<and> near_top self p)
        \<and> (get_resize_direction self p = Some ''bottom-right'' \<longleftrightarrow>
             near_right self p \<and> near_bottom self p))
   \<and> get_resize_direction MainWindow_init \<lparr>xp = 4, yp = 4\<rparr> = Some ''top-left''"
proof -
  have r: "get_resize_direction self p \<in> set (None # map Some directions)"
    by (simp add: get_resize_direction_def directions_def)
  have c: "get_resize_direction self p
          \<in> set (map Some [''top-left'', ''bottom-left'', ''top-right'', ''bottom-right''])
        \<longleftrightarrow> (near_left self p \<or> near_right self p) \<and> (near_top self p \<or> near_bottom self p)"
    by (auto simp add: get_resize_direction_def)
  have tl: "get_resize_direction self p = Some ''top-left'' \<longleftrightarrow>
      near_left self p \<and> near_top self p"
    by (simp add: get_resize_direction_def)
  have bl1: "get_resize_direction self p = Some ''bottom-left'' \<longrightarrow>
      near_left self p \<and> near_bottom self p"
    by (auto simp add: get_resize_direction_def split: if_splits)
  have tr1: "get_resize_direction self p = Some ''top-right'' \<longrightarrow>
      near_right self p \<and> near_top self p"
    by (auto simp add: get_resize_direction_def split: if_splits)
  have br1: "get_resize_direction self p = Some ''bottom-right'' \<longrightarrow>
      near_right self p \<and> near_bottom self p"
    by (auto simp add: get_resize_direction_def split: if_splits)
  have n: "get_resize_direction self p = None \<longleftrightarrow>
      \<not> near_left self p \<and> \<not> near_right self p \<and> \<not> near_top self p \<and> \<not> near_bottom self p"
    by (auto simp add: get_resize_direction_def)
  have ex: "get_resize_direction MainWindow_init \<lparr>xp = 4, yp = 4\<rparr> = Some ''top-left''"
    by (simp add: get_resize_direction_def near_left_def near_top_def init_geometry)
  have corners: "(get_resize_direction self p = Some ''bottom-left'' \<longleftrightarrow>
           near_left self p \<and> near_bottom self p)
        \<and> (get_resize_direction self p = Some ''top-right'' \<longleftrightarrow>
             near_right self p \<and> near_top self p)
        \<and> (get_resize_direction self p = Some ''bottom-right'' \<longleftrightarrow>
             near_right self p \<and> near_bottom self p)"
    if W: "2 * edge_margin self < rwidth (rect (widget self))"
      and H: "2 * edge_margin self < rheight (rect (widget self))"
  proof -
    have lr: "\<not> (near_left self p \<and> near_right self p)"
      using W by (rule left_right_exclusive)
    have tb: "\<not> (near_top self p \<and> near_bottom self p)"
      using H by (rule top_bottom_exclusive)
    have bl: "get_resize_direction self p = Some ''bottom-left'' \<longleftrightarrow>
        near_left self p \<and> near_bottom self p"
      using tb by (auto simp add: get_resize_direction_def)
    have tr: "get_resize_direction self p = Some ''top-right'' \<longleftrightarrow>
        near_right self p \<and> near_top self p"
      using lr by (auto simp add: get_resize_direction_def)
    have br: "get_resize_direction self p = Some ''bottom-right'' \<longleftrightarrow>
        near_right self p \<and> near_bottom self p"
      using lr tb by (auto simp add: get_resize_direction_def)
    from bl tr br show ?thesis by blast
  qed
  from r c tl bl1 tr1 br1 n corners ex show ?thesis by blast
qed

text \<open>
  The theorem at the 800 by 600 window and the position (795, 597): the width and the
  height exceed twice the margin, the position is near the right and the bottom edge, and
  the result is \<^verbatim>\<open>"bottom-right"\<close>.
\<close>

theorem get_resize_direction_classifies_witness:
  "2 * edge_margin MainWindow_init < rwidth (rect (widget MainWindow_init))
   \<and> 2 * edge_margin MainWindow_init < rheight (rect (widget MainWindow_init))
   \<and> near_right MainWindow_init \<lparr>xp = 795, yp = 597\<rparr>
   \<and> near_bottom MainWindow_init \<lparr>xp = 795, yp = 597\<rparr>
   \<and> get_resize_direction MainWindow_init \<lparr>xp = 795, yp = 597\<rparr> = Some ''bottom-right''"
proof -
  have W: "2 * edge_margin MainWindow_init < rwidth (rect (widget MainWindow_init))"
    by (simp add: init_geometry)
  have H: "2 * edge_margin MainWindow_init < rheight (rect (widget MainWindow_init))"
    by (simp add: init_geometry)
  have R: "near_right MainWindow_init \<lparr>xp = 795, yp = 597\<rparr>"
    by (simp add: near_right_def init_geometry)
  have B: "near_bottom MainWindow_init \<lparr>xp = 795, yp = 597\<rparr>"
    by (simp add: near_bottom_def init_geometry)
  from get_resize_direction_classifies [of MainWindow_init "\<lparr>xp = 795, yp = 597\<rparr>"] W H R B
  show ?thesis by blast
qed

subsection \<open>Resizing\<close>

lemma resize_rect_right:
  "str_in ''right'' d \<Longrightarrow> \<not> str_in ''left'' d \<Longrightarrow>
   rwidth (resize_rect d delta minw minh r) = max (rwidth r + xp delta) minw"
  by (simp add: resize_rect_def Let_def rwidth_def setWidth_def setHeight_def setTop_def)

lemma resize_rect_bottom:
  "str_in ''bottom'' d \<Longrightarrow> \<not> str_in ''top'' d \<Longrightarrow>
   rheight (resize_rect d delta minw minh r) = max (rheight r + yp delta) minh"
  by (simp add: resize_rect_def Let_def rheight_def rleft_def setWidth_def setHeight_def
      setLeft_def)

lemma resize_rect_left:
  "str_in ''left'' d \<Longrightarrow> \<not> str_in ''right'' d \<Longrightarrow>
   rleft (resize_rect d delta minw minh r) = rleft r + xp delta
   \<and> rright (resize_rect d delta minw minh r) = rright r
   \<and> rwidth (resize_rect d delta minw minh r) = rwidth r - xp delta"
  by (simp add: resize_rect_def Let_def rwidth_def rleft_def rright_def rtop_def
      setHeight_def setLeft_def setTop_def)

lemma resize_rect_top:
  "str_in ''top'' d \<Longrightarrow> \<not> str_in ''bottom'' d \<Longrightarrow>
   rtop (resize_rect d delta minw minh r) = rtop r + yp delta
   \<and> rbottom (resize_rect d delta minw minh r) = rbottom r
   \<and> rheight (resize_rect d delta minw minh r) = rheight r - yp delta"
  by (simp add: resize_rect_def Let_def rheight_def rleft_def rbottom_def rtop_def
      setWidth_def setLeft_def setTop_def)

lemma perform_resize_ok:
  "drag_pos self = Some dp \<Longrightarrow> resize_direction self = Some d \<Longrightarrow>
   perform_resize self g =
     Inr (self\<lparr>widget := setGeometry (widget self)
                  (resize_rect d (QPoint_sub g dp) (minimumWidth (widget self))
                     (minimumHeight (widget self)) (geometry (widget self))),
               drag_pos := Some g\<rparr>)"
  by (simp add: perform_resize_def)

lemma perform_resizes_ok:
  "drag_pos self = Some dp \<Longrightarrow> resize_direction self = Some d \<Longrightarrow> d \<in> set directions \<Longrightarrow>
   \<exists>self'. perform_resizes self gs = Inr self'
     \<and> minimumWidth (widget self') = minimumWidth (widget self)
     \<and> minimumHeight (widget self') = minimumHeight (widget self)
     \<and> (if str_in ''right'' d \<and> minimumWidth (widget self) \<le> rwidth (geometry (widget self))
        then minimumWidth (widget self') \<le> rwidth (geometry (widget self')) else True)
     \<and> (if str_in ''bottom'' d \<and> minimumHeight (widget self) \<le> rheight (geometry (widget self))
        then minimumHeight (widget self') \<le> rheight (geometry (widget self')) else True)"
proof (induction gs arbitrary: self dp)
  case Nil
  then show ?case by simp
next
  case (Cons g gs)
  define s1 where "s1 = self\<lparr>widget := setGeometry (widget self)
                  (resize_rect d (QPoint_sub g dp) (minimumWidth (widget self))
                     (minimumHeight (widget self)) (geometry (widget self))),
               drag_pos := Some g\<rparr>"
  have step: "perform_resize self g = Inr s1"
    unfolding s1_def using Cons.prems(1,2) by (rule perform_resize_ok)
  have dp1: "drag_pos s1 = Some g" and d1: "resize_direction s1 = Some d"
    using Cons.prems(2) by (simp_all add: s1_def)
  have mw: "minimumWidth (widget s1) = minimumWidth (widget self)"
    and mh: "minimumHeight (widget s1) = minimumHeight (widget self)"
    by (simp_all add: s1_def setGeometry_def)
  have g1: "geometry (widget s1) =
      resize_rect d (QPoint_sub g dp) (minimumWidth (widget self))
        (minimumHeight (widget self)) (geometry (widget self))"
    by (simp add: s1_def setGeometry_def)
  have w1: "str_in ''right'' d \<Longrightarrow> minimumWidth (widget s1) \<le> rwidth (geometry (widget s1))"
    using contains_right [OF Cons.prems(3)] by (simp add: g1 mw resize_rect_right)
  have h1: "str_in ''bottom'' d \<Longrightarrow> minimumHeight (widget s1) \<le> rheight (geometry (widget s1))"
    using contains_bottom [OF Cons.prems(3)] by (simp add: g1 mh resize_rect_bottom)
  from Cons.IH [OF dp1 d1 Cons.prems(3)] obtain self' where
    r: "perform_resizes s1 gs = Inr self'"
    and mw': "minimumWidth (widget self') = minimumWidth (widget s1)"
    and mh': "minimumHeight (widget self') = minimumHeight (widget s1)"
    and w': "if str_in ''right'' d \<and> minimumWidth (widget s1) \<le> rwidth (geometry (widget s1))
        then minimumWidth (widget self') \<le> rwidth (geometry (widget self')) else True"
    and h': "if str_in ''bottom'' d \<and> minimumHeight (widget s1) \<le> rheight (geometry (widget s1))
        then minimumHeight (widget self') \<le> rheight (geometry (widget self')) else True"
    by blast
  have "perform_resizes self (g # gs) = Inr self'"
    using step r by simp
  moreover have "str_in ''right'' d \<Longrightarrow>
      minimumWidth (widget self') \<le> rwidth (geometry (widget self'))"
    using w' w1 by simp
  moreover have "str_in ''bottom'' d \<Longrightarrow>
      minimumHeight (widget self') \<le> rheight (geometry (widget self'))"
    using h' h1 by simp
  ultimately show ?case using mw' mh' mw mh by auto
qed

lemma left_drag_fields:
  "drag_pos left_drag = Some \<lparr>xp = 0, yp = 300\<rparr>"
  "resize_direction left_drag = Some ''left''"
  "resizing left_drag"
  "widget left_drag = widget MainWindow_init"
  by (simp_all add: left_drag_def MainWindow_mousePressEvent_def mouse_def Let_def
      get_resize_direction_def near_left_def near_right_def near_top_def near_bottom_def
      truthy_def init_geometry)

lemma top_drag_fields:
  "drag_pos top_drag = Some \<lparr>xp = 400, yp = 0\<rparr>"
  "resize_direction top_drag = Some ''top''"
  "resizing top_drag"
  "widget top_drag = widget MainWindow_init"
  by (simp_all add: top_drag_def MainWindow_mousePressEvent_def mouse_def Let_def
      get_resize_direction_def near_left_def near_right_def near_top_def near_bottom_def
      truthy_def init_geometry)

lemma corner_drag_fields:
  "drag_pos corner_drag = Some \<lparr>xp = 799, yp = 599\<rparr>"
  "resize_direction corner_drag = Some ''bottom-right''"
  "resizing corner_drag"
  "widget corner_drag = widget MainWindow_init"
  by (simp_all add: corner_drag_def MainWindow_mousePressEvent_def mouse_def Let_def
      get_resize_direction_def near_left_def near_right_def near_top_def near_bottom_def
      truthy_def init_geometry)

text \<open>
  Claim C2. Take a resize session (an anchor is recorded and the direction \<open>d\<close> is one of
  the eight) on a window at least as wide and as high as its minimum size. Every sequence
  of \<^verbatim>\<open>_perform_resize\<close> steps returns without error and leaves the minimum size as it
  was; if \<open>d\<close> contains \<^verbatim>\<open>"right"\<close> the resulting width is at least the minimum width,
  and if \<open>d\<close> contains \<^verbatim>\<open>"bottom"\<close> the resulting height is at least the minimum
  height.
\<close>

theorem perform_resize_keeps_minimum:
  assumes "drag_pos self = Some dp"
    and "resize_direction self = Some d"
    and "d \<in> set directions"
    and "minimumWidth (widget self) \<le> rwidth (geometry (widget self))"
    and "minimumHeight (widget self) \<le> rheight (geometry (widget self))"
  shows "\<exists>self'. perform_resizes self gs = Inr self'
     \<and> minimumWidth (widget self') = minimumWidth (widget self)
     \<and> minimumHeight (widget self') = minimumHeight (widget self)
     \<and> (str_in ''right'' d \<longrightarrow> minimumWidth (widget self') \<le> rwidth (geometry (widget self')))
     \<and> (str_in ''bottom'' d \<longrightarrow>
          minimumHeight (widget self') \<le> rheight (geometry (widget self')))"
  using perform_resizes_ok [OF assms(1,2,3), of gs] assms(4,5) by (auto split: if_splits)

text \<open>
  The theorem on the session started by a press on the bottom-right corner of the 800 by
  600 window, followed by a drag inwards to (700, 200) and outwards to (900, 100): the
  width and the height stay at least 800 and 600.
\<close>

theorem perform_resize_keeps_minimum_witness:
  "drag_pos corner_drag = Some \<lparr>xp = 799, yp = 599\<rparr>
   \<and> resize_direction corner_drag = Some ''bottom-right''
   \<and> ''bottom-right'' \<in> set directions
   \<and> minimumWidth (widget corner_drag) \<le> rwidth (geometry (widget corner_drag))
   \<and> minimumHeight (widget corner_drag) \<le> rheight (geometry (widget corner_drag))
   \<and> str_in ''right'' ''bottom-right'' \<and> str_in ''bottom'' ''bottom-right''
   \<and> (\<exists>self'. perform_resizes corner_drag [\<lparr>xp = 700, yp = 200\<rparr>, \<lparr>xp = 900, yp = 100\<rparr>]
                 = Inr self'
        \<and> 800 \<le> rwidth (geometry (widget self')) \<and> 600 \<le> rheight (geometry (widget self')))"
proof -
  have a: "drag_pos corner_drag = Some \<lparr>xp = 799, yp = 599\<rparr>"
    and b: "resize_direction corner_drag = Some ''bottom-right''"
    by (simp_all add: corner_drag_fields)
  have mw: "minimumWidth (widget corner_drag) = 800"
    and mh: "minimumHeight (widget corner_drag) = 600"
    and d: "minimumWidth (widget corner_drag) \<le> rwidth (geometry (widget corner_drag))"
    and e: "minimumHeight (widget corner_drag) \<le> rheight (geometry (widget corner_drag))"
    by (simp_all add: corner_drag_fields init_geometry)
  have c: "''bottom-right'' \<in> set directions"
    by (simp add: directions_def)
  have f: "str_in ''right'' ''bottom-right''" and g: "str_in ''bottom'' ''bottom-right''"
    by simp_all
  from perform_resize_keeps_minimum
         [OF a b c d e, of "[\<lparr>xp = 700, yp = 200\<rparr>, \<lparr>xp = 900, yp = 100\<rparr>]"] f g mw mh
  have "\<exists>self'. perform_resizes corner_drag [\<lparr>xp = 700, yp = 200\<rparr>, \<lparr>xp = 900, yp = 100\<rparr>]
                  = Inr self'
        \<and> 800 \<le> rwidth (geometry (widget self')) \<and> 600 \<le> rheight (geometry (widget self'))"
    by auto
  with a b c d e f g show ?thesis by blast
qed

text \<open>
  Claim C3. In a resize session whose direction \<open>d\<close> contains \<^verbatim>\<open>"left"\<close>,
  \<^verbatim>\<open>_perform_resize\<close> returns without error, the left edge of the new rectangle is the
  old left edge plus the horizontal delta, the right edge is where it was, and the width
  is the old width minus the delta, whatever the minimum width is; the same holds for
  \<^verbatim>\<open>"top"\<close>, the top edge, the bottom edge and the height. So the rectangle can be
  smaller than the minimum size: dragging the left edge of the 800 by 600 window 100 to
  the right gives a width below the minimum width, and dragging its top edge 50 down
  gives a height below the minimum height.
\<close>

theorem perform_resize_left_top_unclamped:
  assumes "drag_pos self = Some dp"
    and "resize_direction self = Some d"
    and "d \<in> set directions"
  shows "(\<exists>self'. perform_resize self g = Inr self'
     \<and> (str_in ''left'' d \<longrightarrow>
          rleft (geometry (widget self')) = rleft (geometry (widget self)) + (xp g - xp dp)
          \<and> rright (geometry (widget self')) = rright (geometry (widget self))
          \<and> rwidth (geometry (widget self')) = rwidth (geometry (widget self)) - (xp g - xp dp))
     \<and> (str_in ''top'' d \<longrightarrow>
          rtop (geometry (widget self')) = rtop (geometry (widget self)) + (yp g - yp dp)
          \<and> rbottom (geometry (widget self')) = rbottom (geometry (widget self))
          \<and> rheight (geometry (widget self')) =
              rheight (geometry (widget self)) - (yp g - yp dp)))
   \<and> (\<exists>s. perform_resize left_drag \<lparr>xp = 100, yp = 300\<rparr> = Inr s
          \<and> rwidth (geometry (widget s)) < minimumWidth (widget s))
   \<and> (\<exists>s. perform_resize top_drag \<lparr>xp = 400, yp = 50\<rparr> = Inr s
          \<and> rheight (geometry (widget s)) < minimumHeight (widget s))"
proof -
  have gen: "\<exists>self'. perform_resize self g = Inr self'
     \<and> (str_in ''left'' d \<longrightarrow>
          rleft (geometry (widget self')) = rleft (geometry (widget self)) + (xp g - xp dp)
          \<and> rright (geometry (widget self')) = rright (geometry (widget self))
          \<and> rwidth (geometry (widget self')) = rwidth (geometry (widget self)) - (xp g - xp dp))
     \<and> (str_in ''top'' d \<longrightarrow>
          rtop (geometry (widget self')) = rtop (geometry (widget self)) + (yp g - yp dp)
          \<and> rbottom (geometry (widget self')) = rbottom (geometry (widget self))
          \<and> rheight (geometry (widget self')) =
              rheight (geometry (widget self)) - (yp g - yp dp))"
    using perform_resize_ok [OF assms(1,2), of g] contains_left [OF assms(3)]
      contains_top [OF assms(3)]
      resize_rect_left [of d "QPoint_sub g dp"] resize_rect_top [of d "QPoint_sub g dp"]
    by (auto simp add: setGeometry_def QPoint_sub_def)
  have l: "\<exists>s. perform_resize left_drag \<lparr>xp = 100, yp = 300\<rparr> = Inr s
          \<and> rwidth (geometry (widget s)) < minimumWidth (widget s)"
    using resize_rect_left [of "''left''" "\<lparr>xp = 100, yp = 0\<rparr>" 800 600
        "geometry (widget MainWindow_init)"]
    by (simp add: perform_resize_def left_drag_fields init_geometry setGeometry_def
        QPoint_sub_def Let_def)
  have t: "\<exists>s. perform_resize top_drag \<lparr>xp = 400, yp = 50\<rparr> = Inr s
          \<and> rheight (geometry (widget s)) < minimumHeight (widget s)"
    using resize_rect_top [of "''top''" "\<lparr>xp = 0, yp = 50\<rparr>" 800 600
        "geometry (widget MainWindow_init)"]
    by (simp add: perform_resize_def top_drag_fields init_geometry setGeometry_def
        QPoint_sub_def Let_def)
  from gen l t show ?thesis by blast
qed

text \<open>
  The theorem on the session started by a press on the left edge of the 800 by 600
  window at (0, 300), with the cursor moved to (100, 300): the left edge moves to 100,
  the right edge stays at 799, the width becomes 700.
\<close>

theorem perform_resize_left_top_unclamped_witness:
  "drag_pos left_drag = Some \<lparr>xp = 0, yp = 300\<rparr>
   \<and> resize_direction left_drag = Some ''left''
   \<and> ''left'' \<in> set directions \<and> str_in ''left'' ''left''
   \<and> (\<exists>self'. perform_resize left_drag \<lparr>xp = 100, yp = 300\<rparr> = Inr self'
         \<and> rleft (geometry (widget self')) = 100
         \<and> rright (geometry (widget self')) = 799
         \<and> rwidth (geometry (widget self')) = 700)"
proof -
  have a: "drag_pos left_drag = Some \<lparr>xp = 0, yp = 300\<rparr>"
    and b: "resize_direction left_drag = Some ''left''"
    by (simp_all add: left_drag_fields)
  have g: "rleft (geometry (widget left_drag)) = 0"
    "rright (geometry (widget left_drag)) = 799"
    "rwidth (geometry (widget left_drag)) = 800"
    by (simp_all add: left_drag_fields init_geometry)
  have c: "''left'' \<in> set directions"
    by (simp add: directions_def)
  have d: "str_in ''left'' ''left''"
    by simp
  from perform_resize_left_top_unclamped [OF a b c, of "\<lparr>xp = 100, yp = 300\<rparr>"] d g
  have "\<exists>self'. perform_resize left_drag \<lparr>xp = 100, yp = 300\<rparr> = Inr self'
         \<and> rleft (geometry (widget self')) = 100
         \<and> rright (geometry (widget self')) = 799
         \<and> rwidth (geometry (widget self')) = 700"
    by auto
  with a b c d show ?thesis by blast
qed

subsection \<open>Mouse events on the window frame\<close>

text \<open>
  A move on the window frame outside a resize session returns the window as it was,
  without error, and issues no call.
\<close>

lemma frame_move_without_session:
  "\<not> (resizing self \<and> truthy (resize_direction self)) \<Longrightarrow>
   MainWindow_mouseMoveEvent self event = Inr self"
  by (auto simp add: MainWindow_mouseMoveEvent_def)

text \<open>
  Claim C8. For every window state and every release event,
  \<^verbatim>\<open>MainWindow.mouseReleaseEvent\<close> leaves \<^verbatim>\<open>_resizing\<close> false, \<^verbatim>\<open>_resize_direction\<close>
  \<^verbatim>\<open>None\<close> and the cursor the default arrow.
\<close>

theorem mouseReleaseEvent_clears_session:
  "resizing (MainWindow_mouseReleaseEvent self event) = False
   \<and> resize_direction (MainWindow_mouseReleaseEvent self event) = None
   \<and> cursor (widget (MainWindow_mouseReleaseEvent self event)) = ArrowCursor"
  by (simp add: MainWindow_mouseReleaseEvent_def setCursor_def)

text \<open>
  Claim C10. A press whose button is not the left button leaves \<^verbatim>\<open>_drag_pos\<close>,
  \<^verbatim>\<open>_resizing\<close> and \<^verbatim>\<open>_resize_direction\<close> as they were; indeed it leaves the whole
  window as it was.
\<close>

theorem mousePressEvent_other_button:
  "button event \<noteq> LeftButton \<Longrightarrow>
   drag_pos (MainWindow_mousePressEvent self event) = drag_pos self
   \<and> resizing (MainWindow_mousePressEvent self event) = resizing self
   \<and> resize_direction (MainWindow_mousePressEvent self event) = resize_direction self
   \<and> MainWindow_mousePressEvent self event = self"
  by (simp add: MainWindow_mousePressEvent_def)

text \<open>
  The theorem on a right-button press at the top-left corner of the new window, where a
  left-button press would start a session.
\<close>

theorem mousePressEvent_other_button_witness:
  "button (mouse RightButton 4 4 104 104) \<noteq> LeftButton
   \<and> drag_pos (MainWindow_mousePressEvent MainWindow_init (mouse RightButton 4 4 104 104)) = None
   \<and> resizing (MainWindow_mousePressEvent MainWindow_init (mouse RightButton 4 4 104 104)) = False
   \<and> resize_direction (MainWindow_mousePressEvent MainWindow_init (mouse RightButton 4 4 104 104))
       = None"
proof -
  have b: "button (mouse RightButton 4 4 104 104) \<noteq> LeftButton"
    by (simp add: mouse_def)
  have i: "drag_pos MainWindow_init = None" "resizing MainWindow_init = False"
    "resize_direction MainWindow_init = None"
    by (simp_all add: MainWindow_init_def)
  from mousePressEvent_other_button [OF b, of MainWindow_init] b i show ?thesis by simp
qed

subsection \<open>Mouse events on the title bar\<close>

lemma titlebar_move_without_press:
  "start (customTitleBar self) = None \<Longrightarrow>
   CustomTitleBar_mouseMoveEvent self event = Inl TypeError"
  by (simp add: CustomTitleBar_mouseMoveEvent_def Let_def)

text \<open>
  Claim C4 does not hold of the title bar. On the new window, where no press has been
  recorded (\<^verbatim>\<open>self.start\<close> is \<^verbatim>\<open>None\<close>), a move event on the title bar raises
  \<^verbatim>\<open>TypeError\<close> instead of being ignored. (The window-frame half of the claim holds:
  lemma \<open>frame_move_without_session\<close>.)
\<close>

theorem titlebar_move_before_press_raises:
  "start (customTitleBar MainWindow_init) = None
   \<and> CustomTitleBar_mouseMoveEvent MainWindow_init (mouse NoButton 110 10 110 10)
       = Inl TypeError
   \<and> run [TitleBarMove (mouse NoButton 110 10 110 10)] MainWindow_init = Inl TypeError"
  by (simp add: CustomTitleBar_mouseMoveEvent_def Let_def MainWindow_init_def
      CustomTitleBar_init_def isMaximized_def isFullScreen_def)

lemma drag_moves_no_restore: "count_list (drag_moves a x y es) ShowNormal = 0"
  by (induction es arbitrary: a x y) (simp_all add: Let_def)

lemma wx_move [simp]: "wx (move w x y) = x" "wy (move w x y) = y"
  by (simp_all add: wx_def wy_def move_def moveTo_def QRect_xywh_def rleft_def rtop_def)

lemma titlebar_move_normal:
  "\<not> isMaximized (widget s) \<Longrightarrow> \<not> isFullScreen (widget s) \<Longrightarrow>
   start (customTitleBar s) = Some a \<Longrightarrow>
   CustomTitleBar_mouseMoveEvent s e =
     Inr (s\<lparr>widget := move (widget s) (wx (widget s) + (xp (globalPos e) - xp a))
                          (wy (widget s) + (yp (globalPos e) - yp a)),
            customTitleBar := (customTitleBar s)\<lparr>start := Some (globalPos e)\<rparr>\<rparr>)"
  by (simp add: CustomTitleBar_mouseMoveEvent_def Let_def QPoint_sub_def)

lemma titlebar_moves_normal:
  "\<not> isMaximized (widget s) \<Longrightarrow> \<not> isFullScreen (widget s) \<Longrightarrow>
   start (customTitleBar s) = Some a \<Longrightarrow>
   \<exists>s'. run (map TitleBarMove es) s = Inr s'
     \<and> calls (widget s') = calls (widget s) @ drag_moves a (wx (widget s)) (wy (widget s)) es
     \<and> start (customTitleBar s') = Some (last (a # map globalPos es))"
proof (induction es arbitrary: s a)
  case Nil
  then show ?case by simp
next
  case (Cons e es)
  define s1 where
    "s1 = s\<lparr>widget := move (widget s) (wx (widget s) + (xp (globalPos e) - xp a))
                          (wy (widget s) + (yp (globalPos e) - yp a)),
            customTitleBar := (customTitleBar s)\<lparr>start := Some (globalPos e)\<rparr>\<rparr>"
  have step: "CustomTitleBar_mouseMoveEvent s e = Inr s1"
    unfolding s1_def using Cons.prems by (rule titlebar_move_normal)
  have n1: "\<not> isMaximized (widget s1)" and n2: "\<not> isFullScreen (widget s1)"
    using Cons.prems(1,2) by (simp_all add: s1_def isMaximized_def isFullScreen_def move_def)
  have st: "start (customTitleBar s1) = Some (globalPos e)"
    by (simp add: s1_def)
  have c1: "calls (widget s1) =
      calls (widget s) @ [Move (wx (widget s) + (xp (globalPos e) - xp a))
                               (wy (widget s) + (yp (globalPos e) - yp a))]"
    by (simp add: s1_def move_def)
  have p1: "wx (widget s1) = wx (widget s) + (xp (globalPos e) - xp a)"
    "wy (widget s1) = wy (widget s) + (yp (globalPos e) - yp a)"
    by (simp_all add: s1_def)
  from Cons.IH [OF n1 n2 st] obtain s' where
    r: "run (map TitleBarMove es) s1 = Inr s'"
    and c: "calls (widget s') =
        calls (widget s1) @ drag_moves (globalPos e) (wx (widget s1)) (wy (widget s1)) es"
    and l: "start (customTitleBar s') = Some (last (globalPos e # map globalPos es))"
    by blast
  have "run (map TitleBarMove (e # es)) s = Inr s'"
    using step r by simp
  moreover have "calls (widget s') =
      calls (widget s) @ drag_moves a (wx (widget s)) (wy (widget s)) (e # es)"
    using c by (simp add: c1 p1 Let_def)
  moreover have "start (customTitleBar s') = Some (last (a # map globalPos (e # es)))"
    using l by simp
  ultimately show ?case by blast
qed

text \<open>
  Claim C7. Take a window that is maximized or full screen, a press \<open>p\<close> on the title bar
  and the move events \<open>e\<close>, \<open>es\<close> of the drag that follows. The drag returns without
  error. The calls it issues on the window are one \<^verbatim>\<open>showNormal\<close>, first, and then one
  \<^verbatim>\<open>move\<close> per event, each by the event's global position minus the anchor, from the
  position the restored window has; \<^verbatim>\<open>showNormal\<close> occurs exactly once among them. At
  the end the anchor is the global position of the last event.
\<close>

theorem titlebar_drag_restores_once:
  assumes "isMaximized (widget self) \<or> isFullScreen (widget self)"
  shows "\<exists>self'. run (TitleBarPress p # TitleBarMove e # map TitleBarMove es) self = Inr self'
     \<and> calls (widget self') =
         calls (widget self) @ ShowNormal #
           drag_moves (globalPos p) (wx (showNormal (widget self)))
             (wy (showNormal (widget self))) (e # es)
     \<and> count_list (drop (length (calls (widget self))) (calls (widget self'))) ShowNormal = 1
     \<and> start (customTitleBar self') = Some (globalPos (last (e # es)))"
proof -
  define s0 where "s0 = CustomTitleBar_mousePressEvent self p"
  define s1 where
    "s1 = s0\<lparr>widget := showNormal (widget s0),
             customTitleBar := (customTitleBar s0)
               \<lparr>maximizeButton := ''maximize-button-icon-white.png'',
                fullScreenButton := ''fullscreen-button-icon-white.png''\<rparr>\<rparr>"
  have w0: "widget s0 = widget self"
    by (simp add: s0_def CustomTitleBar_mousePressEvent_def)
  have n1: "\<not> isMaximized (widget s1)" and n2: "\<not> isFullScreen (widget s1)"
    by (simp_all add: s1_def isMaximized_def isFullScreen_def showNormal_def)
  have st: "start (customTitleBar s1) = Some (globalPos p)"
    by (simp add: s1_def s0_def CustomTitleBar_mousePressEvent_def)
  have c1: "calls (showNormal (widget self)) = calls (widget self) @ [ShowNormal]"
    by (simp add: showNormal_def)
  have w1: "widget s1 = showNormal (widget self)"
    by (simp add: s1_def w0)
  have first: "CustomTitleBar_mouseMoveEvent s0 e = CustomTitleBar_mouseMoveEvent s1 e"
    using assms
    by (auto simp add: CustomTitleBar_mouseMoveEvent_def Let_def w0 s1_def isMaximized_def
        isFullScreen_def showNormal_def)
  from titlebar_moves_normal [OF n1 n2 st, of "e # es"] obtain s' where
    r: "run (map TitleBarMove (e # es)) s1 = Inr s'"
    and c: "calls (widget s') =
        calls (widget s1) @ drag_moves (globalPos p) (wx (widget s1)) (wy (widget s1)) (e # es)"
    and l: "start (customTitleBar s') = Some (last (globalPos p # map globalPos (e # es)))"
    by blast
  have run: "run (TitleBarPress p # TitleBarMove e # map TitleBarMove es) self = Inr s'"
    using r first by (simp add: s0_def)
  have calls: "calls (widget s') =
      calls (widget self) @ ShowNormal #
        drag_moves (globalPos p) (wx (showNormal (widget self)))
          (wy (showNormal (widget self))) (e # es)"
    using c by (simp add: c1 w1)
  have one: "count_list (drop (length (calls (widget self))) (calls (widget s'))) ShowNormal = 1"
    by (simp only: calls append_eq_conv_conj drop_append)
       (simp add: drag_moves_no_restore Let_def)
  have last: "start (customTitleBar s') = Some (globalPos (last (e # es)))"
    using l by (simp add: last_map)
  from run calls one last show ?thesis by blast
qed

text \<open>
  The theorem on the new window after a click on the maximize button: a press on the
  title bar at (100, 10) and moves to (110, 15) and (120, 20) issue \<^verbatim>\<open>showNormal\<close>
  once and then move the window to (10, 5) and to (20, 10).
\<close>

theorem titlebar_drag_restores_once_witness:
  "isMaximized (widget maximized_window)
   \<and> (\<exists>self'. run [TitleBarPress (mouse LeftButton 100 10 100 10),
                    TitleBarMove (mouse NoButton 110 15 110 15),
                    TitleBarMove (mouse NoButton 120 20 120 20)] maximized_window = Inr self'
        \<and> calls (widget self') = [ShowMaximized, ShowNormal, Move 10 5, Move 20 10])"
proof -
  have m: "isMaximized (widget maximized_window)"
    by (simp add: maximized_window_def showParentMaximized_def MainWindow_init_def
        isMaximized_def showMaximized_def)
  have c: "calls (widget maximized_window) = [ShowMaximized]"
    and x: "wx (showNormal (widget maximized_window)) = 0"
      "wy (showNormal (widget maximized_window)) = 0"
    by (simp_all add: maximized_window_def showParentMaximized_def MainWindow_init_def
        isMaximized_def showMaximized_def showNormal_def wx_def wy_def rleft_def rtop_def
        QRect_xywh_def)
  from titlebar_drag_restores_once
         [of maximized_window "mouse LeftButton 100 10 100 10" "mouse NoButton 110 15 110 15"
            "[mouse NoButton 120 20 120 20]"] m
  have "\<exists>self'. run [TitleBarPress (mouse LeftButton 100 10 100 10),
                    TitleBarMove (mouse NoButton 110 15 110 15),
                    TitleBarMove (mouse NoButton 120 20 120 20)] maximized_window = Inr self'
        \<and> calls (widget self') = [ShowMaximized, ShowNormal, Move 10 5, Move 20 10]"
    by (auto simp add: c x mouse_def Let_def)
  with m show ?thesis by blast
qed

subsection \<open>The window-control buttons and the menu\<close>


text \<open>
  Claim C9. The quit action and the close button have the same single slot,
  \<^verbatim>\<open>closeParent\<close>, so triggering the one and clicking the other are the same function
  of the window; that function calls \<^verbatim>\<open>close\<close> on the parent window and changes
  nothing else.
\<close>

theorem quit_action_is_close_button:
  "emit action_quit_triggered = emit closeButton_clicked
   \<and> slots action_quit_triggered = [closeParent]
   \<and> slots closeButton_clicked = [closeParent]
   \<and> emit closeButton_clicked self = closeParent self
   \<and> closeParent self = self\<lparr>widget := close (widget self)\<rparr>"
  by (simp add: emit_def slots_def connections_def setup_buttons_def setup_menubar_def
      closeParent_def fun_eq_iff)

lemma enter_fullscreen_after_maximize:
  "isFullScreen (widget (showParentFullScreen (showParentMaximized self)))
   \<and> \<not> isMaximized (widget (showParentFullScreen (showParentMaximized self)))
   \<and> fullscreen_icon_active (showParentFullScreen (showParentMaximized self))"
  by (simp add: showParentMaximized_def showParentFullScreen_def
      isMaximized_def isFullScreen_def showMaximized_def showFullScreen_def showNormal_def
      fullscreen_icon_active_def)

lemma toggle_maximize_when_fullscreen:
  "isFullScreen (widget s) \<Longrightarrow> \<not> isMaximized (widget s) \<Longrightarrow> fullscreen_icon_active s \<Longrightarrow>
   isMaximized (widget (showParentMaximized s))
   \<and> \<not> isFullScreen (widget (showParentMaximized s))
   \<and> maximize_icon_active (showParentMaximized s)
   \<and> fullscreen_icon_active (showParentMaximized s)"
  by (simp add: showParentMaximized_def isMaximized_def isFullScreen_def showMaximized_def
      maximize_icon_active_def fullscreen_icon_active_def)

lemma toggle_maximize_when_maximized:
  "isMaximized (widget s) \<Longrightarrow>
   \<not> isMaximized (widget (showParentMaximized s))
   \<and> \<not> isFullScreen (widget (showParentMaximized s))
   \<and> \<not> maximize_icon_active (showParentMaximized s)
   \<and> \<not> fullscreen_icon_active (showParentMaximized s)"
  by (simp add: showParentMaximized_def isMaximized_def isFullScreen_def showNormal_def
      maximize_icon_active_def fullscreen_icon_active_def)

text \<open>
  Claim C5, as amended. From any window state, maximize, then full screen, then the
  maximize toggle: entering full screen has cleared the maximized state, so the toggle
  maximizes again, and the final state is maximized, not full screen, with both icons in
  their active variant. When the toggle is pressed on a maximized window (maximize, then
  the toggle, on the new window), the final state is neither maximized nor full screen
  and both icons are inactive.
\<close>

theorem maximize_fullscreen_toggle_scenario:
  "isMaximized (widget (showParentMaximized (showParentFullScreen (showParentMaximized self))))
   \<and> \<not> isFullScreen
         (widget (showParentMaximized (showParentFullScreen (showParentMaximized self))))
   \<and> maximize_icon_active
       (showParentMaximized (showParentFullScreen (showParentMaximized self)))
   \<and> fullscreen_icon_active
       (showParentMaximized (showParentFullScreen (showParentMaximized self)))
   \<and> \<not> isMaximized (widget (showParentMaximized (showParentMaximized MainWindow_init)))
   \<and> \<not> isFullScreen (widget (showParentMaximized (showParentMaximized MainWindow_init)))
   \<and> \<not> maximize_icon_active (showParentMaximized (showParentMaximized MainWindow_init))
   \<and> \<not> fullscreen_icon_active (showParentMaximized (showParentMaximized MainWindow_init))"
proof -
  have m: "isMaximized (widget (showParentMaximized MainWindow_init))"
    by (simp add: showParentMaximized_def MainWindow_init_def isMaximized_def
        showMaximized_def)
  from enter_fullscreen_after_maximize [of self]
  have a: "isMaximized
        (widget (showParentMaximized (showParentFullScreen (showParentMaximized self))))
   \<and> \<not> isFullScreen
         (widget (showParentMaximized (showParentFullScreen (showParentMaximized self))))
   \<and> maximize_icon_active
       (showParentMaximized (showParentFullScreen (showParentMaximized self)))
   \<and> fullscreen_icon_active
       (showParentMaximized (showParentFullScreen (showParentMaximized self)))"
    by (simp add: toggle_maximize_when_fullscreen)
  from a toggle_maximize_when_maximized [OF m] show ?thesis by blast
qed

text \<open>
  Claim C5 as written fails: on the new window the scenario ends with the window
  maximized and both icons active.
\<close>

theorem maximize_fullscreen_toggle_counterexample:
  "isMaximized
     (widget (showParentMaximized (showParentFullScreen (showParentMaximized MainWindow_init))))
   \<and> maximize_icon_active
       (showParentMaximized (showParentFullScreen (showParentMaximized MainWindow_init)))
   \<and> fullscreen_icon_active
       (showParentMaximized (showParentFullScreen (showParentMaximized MainWindow_init)))"
  by (simp add: showParentMaximized_def showParentFullScreen_def MainWindow_init_def
      isMaximized_def isFullScreen_def showMaximized_def showFullScreen_def showNormal_def
      maximize_icon_active_def fullscreen_icon_active_def)

subsection \<open>The icons along every run\<close>




















end
